theory Spec2Isabelle
  imports Main
begin

section \<open>Fragments of the Go standard library used by authy\<close>

text \<open>
  Go strings are byte strings: \<^typ>\<open>string\<close>.  A \<open>time.Time\<close> is an instant counted in
  nanoseconds, a \<open>time.Duration\<close> a number of nanoseconds.
\<close>

type_synonym Time = int

definition Second :: int where
  "Second = 1000000000"

subsection \<open>strings\<close>

fun HasPrefix :: "string \<Rightarrow> string \<Rightarrow> bool" where
  "HasPrefix s [] = True"
| "HasPrefix [] (p # ps) = False"
| "HasPrefix (c # cs) (p # ps) = (c = p \<and> HasPrefix cs ps)"

text \<open>\<open>strings.Index\<close>: the offset of the first occurrence, \<open>None\<close> for Go's \<open>-1\<close>.\<close>

fun Index :: "string \<Rightarrow> string \<Rightarrow> nat option" where
  "Index [] sep = (if sep = [] then Some 0 else None)"
| "Index (c # cs) sep =
     (if HasPrefix (c # cs) sep then Some 0 else map_option Suc (Index cs sep))"

definition Contains :: "string \<Rightarrow> string \<Rightarrow> bool" where
  "Contains s substr = (Index s substr \<noteq> None)"

fun Join :: "string list \<Rightarrow> string \<Rightarrow> string" where
  "Join [] sep = []"
| "Join [a] sep = a"
| "Join (a # b # rest) sep = a @ sep @ Join (b # rest) sep"

lemma Index_bound: "Index s sep = Some m \<Longrightarrow> m + length sep \<le> length s"
proof (induction s arbitrary: m)
  case Nil
  then show ?case by (simp split: if_splits)
next
  case (Cons c cs)
  have pre: "HasPrefix t p \<Longrightarrow> length p \<le> length t" for t p
    by (induction t p rule: HasPrefix.induct) auto
  show ?case
  proof (cases "HasPrefix (c # cs) sep")
    case True
    with Cons.prems pre [of "c # cs" sep] show ?thesis by simp
  next
    case False
    with Cons.prems obtain k where "Index cs sep = Some k" "m = Suc k" by auto
    with Cons.IH [of k] show ?thesis by simp
  qed
qed

text \<open>
  \<open>strings.Split(s, sep)\<close> with a non-empty separator cuts \<open>s\<close> at every occurrence of
  \<open>sep\<close>, left to right; a string without the separator (the empty string too) gives the
  one-element list holding it.  With the empty separator Go explodes \<open>s\<close> into its UTF-8
  sequences; that part of the library is the parameter \<open>explode\<close>.
\<close>

function Split :: "(string \<Rightarrow> string list) \<Rightarrow> string \<Rightarrow> string \<Rightarrow> string list" where
  "Split explode s sep =
     (if sep = [] then explode s
      else case Index s sep of
             None \<Rightarrow> [s]
           | Some m \<Rightarrow> take m s # Split explode (drop (m + length sep) s) sep)"
  by pat_completeness auto
termination
proof (relation "measure (\<lambda>(explode, s, sep). length s)")
  show "wf (measure (\<lambda>(explode, s, sep). length s))" by simp
next
  fix explode :: "string \<Rightarrow> string list" and s sep :: string and m :: nat
  assume "sep \<noteq> []" and "Index s sep = Some m"
  then have "m + length sep \<le> length s" and "0 < length sep"
    by (simp_all add: Index_bound)
  then have "length s - (m + length sep) < length s"
    by arith
  then show "((explode, drop (m + length sep) s, sep), (explode, s, sep))
               \<in> measure (\<lambda>(explode, s, sep). length s)"
    by simp
qed

declare Split.simps [simp del]

subsection \<open>strconv.ParseInt, base 10\<close>

datatype NumError = ErrSyntax | ErrRange

definition digit :: "char \<Rightarrow> nat option" where
  "digit c = (let x = (of_char c :: nat) in if 48 \<le> x \<and> x \<le> 57 then Some (x - 48) else None)"

text \<open>
  The loop of \<open>strconv.ParseUint(s, 10, bitSize)\<close> over the characters, \<open>n\<close> the value
  so far in a \<open>uint64\<close>.  A character that is no decimal digit is a syntax error; a value
  beyond \<open>maxVal\<close> is a range error, returned together with \<open>maxVal\<close>.
\<close>

fun ParseUint_loop :: "nat \<Rightarrow> nat \<Rightarrow> string \<Rightarrow> nat \<times> NumError option" where
  "ParseUint_loop maxVal n [] = (n, None)"
| "ParseUint_loop maxVal n (c # cs) =
     (case digit c of
        None \<Rightarrow> (0, Some ErrSyntax)
      | Some d \<Rightarrow>
          if n \<ge> (2 ^ 64 - 1) div 10 + 1 then (maxVal, Some ErrRange)
          else let n10 = n * 10; n1 = (n10 + d) mod 2 ^ 64
               in if n1 < n10 \<or> n1 > maxVal then (maxVal, Some ErrRange)
                  else ParseUint_loop maxVal n1 cs)"

definition ParseUint :: "string \<Rightarrow> nat \<Rightarrow> nat \<times> NumError option" where
  "ParseUint s bitSize =
     (if s = [] then (0, Some ErrSyntax)
      else ParseUint_loop (2 ^ (if bitSize = 0 then 64 else bitSize) - 1) 0 s)"

definition ParseInt :: "string \<Rightarrow> nat \<Rightarrow> int \<times> NumError option" where
  "ParseInt s0 bitSize =
     (if s0 = [] then (0, Some ErrSyntax)
      else
        let neg = (hd s0 = CHR ''-'');
            s = (if hd s0 = CHR ''+'' \<or> hd s0 = CHR ''-'' then tl s0 else s0);
            (un, err) = ParseUint s bitSize
        in if err = Some ErrSyntax then (0, err)
           else
             let cutoff = (2 :: nat) ^ ((if bitSize = 0 then 64 else bitSize) - 1)
             in if \<not> neg \<and> un \<ge> cutoff then (int cutoff - 1, Some ErrRange)
                else if neg \<and> un > cutoff then (- int cutoff, Some ErrRange)
                else (if neg then - int un else int un, None))"

subsection \<open>net/url: Values\<close>

text \<open>
  \<open>url.Values\<close> is a \<open>map[string][]string\<close>.  The model is an association list with one
  entry for each key; the order of the entries is what a \<open>range\<close> over the map would meet
  and nothing below depends on it.
\<close>

type_synonym Values = "(string \<times> string list) list"

definition Values_Get :: "Values \<Rightarrow> string \<Rightarrow> string" where
  "Values_Get v key =
     (case map_of v key of
        None \<Rightarrow> []
      | Some vs \<Rightarrow> (case vs of [] \<Rightarrow> [] | x # _ \<Rightarrow> x))"

text \<open>The assignment \<open>m[key] = v\<close> to a Go map.\<close>

fun assign :: "('k \<times> 'v) list \<Rightarrow> 'k \<Rightarrow> 'v \<Rightarrow> ('k \<times> 'v) list" where
  "assign [] key v = [(key, v)]"
| "assign ((k, old) # rest) key v =
     (if k = key then (k, v) # rest else (k, old) # assign rest key v)"

definition Values_Set :: "Values \<Rightarrow> string \<Rightarrow> string \<Rightarrow> Values" where
  "Values_Set v key val = assign v key [val]"

definition Values_Add :: "Values \<Rightarrow> string \<Rightarrow> string \<Rightarrow> Values" where
  "Values_Add v key val =
     assign v key ((case map_of v key of None \<Rightarrow> [] | Some vs \<Rightarrow> vs) @ [val])"


text \<open>
  \<open>url.QueryEscape\<close>: letters, digits and \<open>- _ . ~\<close> stay, a space becomes \<open>+\<close>, every
  other byte becomes \<open>%XX\<close> in upper-case hexadecimal.
\<close>

definition shouldEscape :: "char \<Rightarrow> bool" where
  "shouldEscape c =
     (let x = (of_char c :: nat)
      in \<not> ((97 \<le> x \<and> x \<le> 122) \<or> (65 \<le> x \<and> x \<le> 90) \<or> (48 \<le> x \<and> x \<le> 57)
             \<or> c = CHR ''-'' \<or> c = CHR ''_'' \<or> c = CHR ''.'' \<or> c = CHR ''~''))"

definition upperhex :: string where
  "upperhex = ''0123456789ABCDEF''"

definition QueryEscape :: "string \<Rightarrow> string" where
  "QueryEscape s =
     concat (map (\<lambda>c. if c = CHR '' '' then ''+''
                       else if shouldEscape c
                       then [CHR ''%'', upperhex ! (of_char c div 16), upperhex ! (of_char c mod 16)]
                       else [c]) s)"

text \<open>\<open>sort.Strings\<close>: ascending, bytewise.\<close>

fun string_le :: "string \<Rightarrow> string \<Rightarrow> bool" where
  "string_le [] t = True"
| "string_le (c # cs) [] = False"
| "string_le (c # cs) (d # ds) =
     ((of_char c :: nat) < of_char d \<or> (c = d \<and> string_le cs ds))"

fun insert_string :: "string \<Rightarrow> string list \<Rightarrow> string list" where
  "insert_string k [] = [k]"
| "insert_string k (x # xs) = (if string_le k x then k # x # xs else x # insert_string k xs)"

definition sort_Strings :: "string list \<Rightarrow> string list" where
  "sort_Strings ks = foldr insert_string ks []"

text \<open>
  \<open>Values.Encode\<close>: the keys sorted, every value of a key as \<open>key=value\<close>, both escaped,
  the pairs joined by \<open>&\<close>.
\<close>

definition Values_Encode :: "Values \<Rightarrow> string" where
  "Values_Encode v =
     Join (concat (map (\<lambda>k. map (\<lambda>val. QueryEscape k @ ''='' @ QueryEscape val)
                                 (case map_of v k of None \<Rightarrow> [] | Some vs \<Rightarrow> vs))
                       (sort_Strings (remdups (map fst v))))) ''&''"

text \<open>
  \<open>query.Values\<close> of go-querystring on a struct of string fields, each given by its
  \<open>url\<close> tag, whether the tag says \<open>omitempty\<close>, and its value.  On a struct it returns
  no error.
\<close>

fun query_Values :: "(string \<times> bool \<times> string) list \<Rightarrow> Values \<Rightarrow> Values" where
  "query_Values [] values = values"
| "query_Values ((name, omitempty, val) # fields) values =
     (if omitempty \<and> val = [] then query_Values fields values
      else query_Values fields (Values_Add values name val))"

section \<open>Package oauth2: errors\<close>

text \<open>The standard OAuth2 error (\<open>oauth2.Error\<close>).\<close>

record oauth2_Error =
  e_Code :: string
  e_Description :: string
  e_URI :: string
  e_Raw :: Values

text \<open>
  The values of Go's \<open>error\<close> that authy meets: \<open>errors.New\<close> of a message, an
  \<open>oauth2.Error\<close>, and the errors the standard library returns (network, URL parsing,
  the random source), which authy hands on as they are.
\<close>

datatype error =
    ErrorString string
  | OAuth2Error oauth2_Error
  | LibraryError string

subsection \<open>net/url: URL\<close>

record URL =
  url_Scheme :: string
  url_Opaque :: string
  url_User :: "string option"
  url_Host :: string
  url_Path :: string
  url_ForceQuery :: bool
  url_RawQuery :: string
  url_Fragment :: string

text \<open>
  The library functions that are taken as they are: \<open>url.Parse\<close>, \<open>url.ParseQuery\<close>, the
  escaping of a host, of a path and of a fragment inside \<open>URL.String\<close>, and the splitting
  of a string into UTF-8 sequences.
\<close>

record stdlib =
  url_Parse :: "string \<Rightarrow> error + URL"
  url_ParseQuery :: "string \<Rightarrow> error + Values"
  escape_host :: "string \<Rightarrow> string"
  EscapedPath :: "URL \<Rightarrow> string"
  EscapedFragment :: "URL \<Rightarrow> string"
  explode :: "string \<Rightarrow> string list"

text \<open>\<open>URL.String\<close>, statement by statement; \<open>buf\<close> is the string builder.\<close>

definition URL_String :: "stdlib \<Rightarrow> URL \<Rightarrow> string" where
  "URL_String lib u =
     (let buf = (if url_Scheme u \<noteq> [] then url_Scheme u @ '':'' else []);
          buf =
            (if url_Opaque u \<noteq> [] then buf @ url_Opaque u
             else
               let buf =
                     (if url_Scheme u \<noteq> [] \<or> url_Host u \<noteq> [] \<or> url_User u \<noteq> None
                      then
                        let buf = (if url_Host u \<noteq> [] \<or> url_Path u \<noteq> [] \<or> url_User u \<noteq> None
                                   then buf @ ''//'' else buf);
                            buf = (case url_User u of None \<Rightarrow> buf | Some ui \<Rightarrow> buf @ ui @ ''@'')
                        in if url_Host u \<noteq> [] then buf @ escape_host lib (url_Host u) else buf
                      else buf);
                   path = EscapedPath lib u;
                   buf = (if path \<noteq> [] \<and> hd path \<noteq> CHR ''/'' \<and> url_Host u \<noteq> []
                          then buf @ ''/'' else buf);
                   buf = (if buf = [] \<and> CHR '':'' \<in> set (takeWhile (\<lambda>c. c \<noteq> CHR ''/'') path)
                          then ''./'' else buf)
               in buf @ path);
          buf = (if url_ForceQuery u \<or> url_RawQuery u \<noteq> [] then buf @ ''?'' @ url_RawQuery u
                 else buf);
          buf = (if url_Fragment u \<noteq> [] then buf @ ''#'' @ EscapedFragment lib u else buf)
      in buf)"


section \<open>Package provider\<close>

text \<open>
  Modelled from the spec: the package \<open>provider\<close> is not among the sources.  Its
  \<open>Provider\<close> (the static metadata of a provider) and \<open>ProviderConfig\<close> (the caller's
  parameters for it) are declared here with the fields the code of \<open>oauth2\<close> and
  \<open>authy\<close> reads, under the names it reads them by.
\<close>

record Provider =
  p_Name :: string
  p_OAuth :: int
  p_AuthorizeURL :: string
  p_AccessURL :: string
  p_ScopeDelimiter :: string
  p_Subdomain :: bool
  p_CustomParameters :: "string list"

record ProviderConfig =
  pc_Provider :: Provider
  pc_Key :: string
  pc_Secret :: string
  pc_Subdomain :: string
  pc_Scope :: "string list"
  pc_Callback :: string
  pc_CustomParameters :: "(string \<times> string) list"
  pc_State :: string

section \<open>The world outside\<close>

text \<open>
  The fields of an \<open>http.Request\<close> that authy touches.  \<open>r_Path\<close> is \<open>r.URL.Path\<close> and
  \<open>r_Query\<close> what \<open>r.URL.Query()\<close> returns; \<open>r_TLS\<close> says that \<open>r.TLS\<close> is not nil.  The
  header is a parameter of the type: an inbound request is only read, and carries its
  header map by value (\<open>Values\<close>); the request of the transport carries a reference.
\<close>

record 'h Request =
  r_Host :: string
  r_Path :: string
  r_Query :: Values
  r_TLS :: bool
  r_Header :: 'h

text \<open>
  What the code reads from and writes to its environment: the clock (\<open>time.Now\<close>), the
  secure random source (\<open>rand.Read\<close> of 16 bytes), and the network.  \<open>w_respond\<close> answers
  an \<open>http.PostForm\<close> to a URL with a form by the body \<open>ioutil.ReadAll\<close> reads, or by the
  error of either step; \<open>w_sent\<close> records the forms posted, oldest first.
\<close>

record world =
  w_now :: Time
  w_rand :: "error + string"
  w_respond :: "string \<Rightarrow> Values \<Rightarrow> error + string"
  w_sent :: "(string \<times> Values) list"

definition PostForm :: "world \<Rightarrow> string \<Rightarrow> Values \<Rightarrow> (error + string) \<times> world" where
  "PostForm w url data = (w_respond w url data, w\<lparr>w_sent := w_sent w @ [(url, data)]\<rparr>)"

section \<open>Package oauth2\<close>

record oauth2_Token =
  o2_AccessToken :: string
  o2_Scope :: "string list"
  o2_Type :: string
  o2_Expires :: "Time option"
  o2_RefreshToken :: string

text \<open>
  \<open>errorTextRe\<close> matches what is not printable ASCII (0x20 to 0x7E) and the backslash;
  \<open>errorURIRe\<close> the space as well.  \<open>ReplaceAllString\<close> with the empty string drops the
  matches.
\<close>

definition errorTextRe_strip :: "string \<Rightarrow> string" where
  "errorTextRe_strip s =
     filter (\<lambda>c. 32 \<le> (of_char c :: nat) \<and> (of_char c :: nat) \<le> 126 \<and> c \<noteq> CHR 0x5C) s"

definition errorURIRe_strip :: "string \<Rightarrow> string" where
  "errorURIRe_strip s =
     filter (\<lambda>c. 32 \<le> (of_char c :: nat) \<and> (of_char c :: nat) \<le> 126 \<and> c \<noteq> CHR '' ''
                 \<and> c \<noteq> CHR 0x5C) s"

definition NewError :: "Values \<Rightarrow> oauth2_Error" where
  "NewError response =
     (let code = errorTextRe_strip (Values_Get response ''error'')
      in if code = []
         then \<lparr>e_Code = ''invalid_response'',
               e_Description = ''The response generated by the server could not be parsed by Authy'',
               e_URI = [], e_Raw = response\<rparr>
         else \<lparr>e_Code = code,
               e_Description = errorTextRe_strip (Values_Get response ''error_description''),
               e_URI = errorURIRe_strip (Values_Get response ''error_uri''),
               e_Raw = response\<rparr>)"

definition genCallbackURL :: "stdlib \<Rightarrow> ProviderConfig \<Rightarrow> Values Request \<Rightarrow> string" where
  "genCallbackURL lib config r =
     (let redirectURI =
            \<lparr>url_Scheme = [], url_Opaque = [], url_User = None, url_Host = r_Host r,
             url_Path = r_Path r @ ''/callback'', url_ForceQuery = False, url_RawQuery = [],
             url_Fragment = []\<rparr>;
          redirectURI =
            (if r_TLS r \<or> map_of (r_Header r) ''X-HTTPS'' \<noteq> None
             then redirectURI\<lparr>url_Scheme := ''https''\<rparr>
             else redirectURI\<lparr>url_Scheme := ''http''\<rparr>)
      in URL_String lib redirectURI)"

definition lowerhex :: string where
  "lowerhex = ''0123456789abcdef''"

definition hex_EncodeToString :: "string \<Rightarrow> string" where
  "hex_EncodeToString src =
     concat (map (\<lambda>c. [lowerhex ! (of_char c div 16), lowerhex ! (of_char c mod 16)]) src)"

definition NewState :: "world \<Rightarrow> error + string" where
  "NewState w = (case w_rand w of Inl err \<Rightarrow> Inl err | Inr rawState \<Rightarrow> Inr (hex_EncodeToString rawState))"

text \<open>
  \<open>strings.Replace(s, old, new, -1)\<close> for a non-empty \<open>old\<close> (here the constant
  \<open>[subdomain]\<close>): every occurrence, left to right, without overlap.
\<close>

definition Replace :: "stdlib \<Rightarrow> string \<Rightarrow> string \<Rightarrow> string \<Rightarrow> string" where
  "Replace lib s old new = Join (Split (explode lib) s old) new"

text \<open>The \<open>url.Values\<close> that \<open>AuthorizeURL\<close> has built when it encodes them.\<close>

definition AuthorizeURL_values :: "stdlib \<Rightarrow> ProviderConfig \<Rightarrow> Values Request \<Rightarrow> Values" where
  "AuthorizeURL_values lib config r =
     (let values =
            query_Values
              [(''client_id'', False, pc_Key config),
               (''response_type'', False, ''code''),
               (''redirect_uri'', True, genCallbackURL lib config r),
               (''scope'', True, Join (pc_Scope config) (p_ScopeDelimiter (pc_Provider config))),
               (''state'', True, pc_State config)] []
      in if length (pc_CustomParameters config) > 0
         then foldl (\<lambda>values name.
                       case map_of (pc_CustomParameters config) name of
                         Some val \<Rightarrow> Values_Set values name val
                       | None \<Rightarrow> values)
                values (p_CustomParameters (pc_Provider config))
         else values)"

definition AuthorizeURL :: "stdlib \<Rightarrow> ProviderConfig \<Rightarrow> Values Request \<Rightarrow> error + string" where
  "AuthorizeURL lib config r =
     (if p_Subdomain (pc_Provider config) \<and> pc_Subdomain config = []
      then Inl (ErrorString (''provider '' @ p_Name (pc_Provider config)
                              @ '' expects the config to contain your subdomain''))
      else
        let baseUrl =
              (if p_Subdomain (pc_Provider config)
               then Replace lib (p_AuthorizeURL (pc_Provider config)) ''[subdomain]''
                      (pc_Subdomain config)
               else p_AuthorizeURL (pc_Provider config))
        in case url_Parse lib baseUrl of
             Inl err \<Rightarrow> Inl err
           | Inr authUrl \<Rightarrow>
               Inr (URL_String lib
                      (authUrl\<lparr>url_RawQuery := Values_Encode (AuthorizeURL_values lib config r)\<rparr>)))"

text \<open>
  \<open>parseTokenResponse\<close>.  \<open>time.Duration(to_add) * time.Second\<close> is a product of 64-bit
  integers; \<open>to_add\<close> lies in the 32-bit range, so it does not wrap.
\<close>

definition parseTokenResponse ::
  "stdlib \<Rightarrow> Time \<Rightarrow> ProviderConfig \<Rightarrow> Values \<Rightarrow> error + oauth2_Token" where
  "parseTokenResponse lib now config values =
     (let token =
            \<lparr>o2_AccessToken = Values_Get values ''access_token'', o2_Scope = [],
             o2_Type = Values_Get values ''token_type'', o2_Expires = None,
             o2_RefreshToken = Values_Get values ''refresh_token''\<rparr>
      in if o2_AccessToken token = [] \<or> o2_Type token = []
         then Inl (OAuth2Error
                \<lparr>e_Code = ''invalid_response'',
                 e_Description = ''The response returned by the server couldn't be parsed by Authy'',
                 e_URI = [], e_Raw = values\<rparr>)
         else
           let scope = Values_Get values ''scope'';
               token = (if scope \<noteq> []
                        then token\<lparr>o2_Scope :=
                               Split (explode lib) scope (p_ScopeDelimiter (pc_Provider config))\<rparr>
                        else token);
               expires_in = Values_Get values ''expires_in'';
               token = (if expires_in \<noteq> []
                        then (let (to_add, err) = ParseInt expires_in 32
                              in if err \<noteq> None
                                 then token\<lparr>o2_Expires := Some (now + to_add * Second)\<rparr>
                                 else token)
                        else token)
           in Inr token)"


definition GetAccessToken ::
  "stdlib \<Rightarrow> ProviderConfig \<Rightarrow> Values Request \<Rightarrow> world \<Rightarrow> (error + oauth2_Token) \<times> world" where
  "GetAccessToken lib config r w =
     (let queryValues =
            query_Values
              [(''client_id'', False, pc_Key config),
               (''client_secret'', False, pc_Secret config),
               (''grant_type'', False, ''authorization_code''),
               (''code'', False, Values_Get (r_Query r) ''code''),
               (''redirect_uri'', True, genCallbackURL lib config r)] [];
          (resp, w') = PostForm w (p_AccessURL (pc_Provider config)) queryValues
      in case resp of
           Inl err \<Rightarrow> (Inl err, w')
         | Inr body \<Rightarrow>
             (case url_ParseQuery lib body of
                Inl err \<Rightarrow> (Inl err, w')
              | Inr values \<Rightarrow>
                  if map_of values ''error'' \<noteq> None
                  then (Inl (OAuth2Error (NewError values)), w')
                  else (parseTokenResponse lib (w_now w') config values, w')))"

text \<open>
  \<open>Refresh\<close>.  Its result \<open>token\<close> is a named result: it holds the zero value of
  \<open>oauth2.Token\<close> from the entry of the function until line 264 assigns it.
\<close>

definition Refresh ::
  "stdlib \<Rightarrow> ProviderConfig \<Rightarrow> oauth2_Token \<Rightarrow> world \<Rightarrow> (error + oauth2_Token) \<times> world" where
  "Refresh lib config originalToken w =
     (let token =
            \<lparr>o2_AccessToken = [], o2_Scope = [], o2_Type = [], o2_Expires = None,
             o2_RefreshToken = []\<rparr>;
          queryValues =
            query_Values
              [(''grant_type'', False, ''refresh_token''),
               (''refresh_token'', False, o2_RefreshToken token)] [];
          (resp, w') = PostForm w (p_AccessURL (pc_Provider config)) queryValues
      in case resp of
           Inl err \<Rightarrow> (Inl err, w')
         | Inr body \<Rightarrow>
             (case url_ParseQuery lib body of
                Inl err \<Rightarrow> (Inl err, w')
              | Inr values \<Rightarrow>
                  if map_of values ''error'' \<noteq> None
                  then (Inl (OAuth2Error (NewError values)), w')
                  else (parseTokenResponse lib (w_now w') config values, w')))"

section \<open>Package authy: session, configuration and token\<close>

text \<open>
  Modelled from the spec: the \<open>Session\<close> interface and \<open>Config\<close> are declared in files
  that are not among the sources.  A session maps keys to dynamically typed values
  (\<open>interface{}\<close>): \<open>Get\<close> returns the value or nil, \<open>Set\<close> stores, \<open>Delete\<close> removes.
  A value is a string, or a value of some other dynamic type.  Of \<open>Config\<close> the code
  reads the engine-wide \<open>Callback\<close>.
\<close>

datatype iface = StringVal string | OtherVal nat

type_synonym Session = "string \<rightharpoonup> iface"

definition Session_Get :: "Session \<Rightarrow> string \<Rightarrow> iface option" where
  "Session_Get session key = session key"

definition Session_Set :: "Session \<Rightarrow> string \<Rightarrow> iface \<Rightarrow> Session" where
  "Session_Set session key val = session(key \<mapsto> val)"

definition Session_Delete :: "Session \<Rightarrow> string \<Rightarrow> Session" where
  "Session_Delete session key = session(key := None)"

record Config =
  c_Callback :: string

record Authy =
  a_config :: Config
  a_providers :: "string \<rightharpoonup> ProviderConfig"

record Token =
  t_authy :: Authy
  t_Version :: int
  t_Provider :: string
  t_Value :: string
  t_Scope :: "string list"
  t_Type :: string
  t_Expires :: "Time option"
  t_RefreshToken :: string

text \<open>A call either returns or panics.\<close>

datatype 'a exec = Panics | Returns 'a

definition tokenFromOAuth2 :: "Authy \<Rightarrow> string \<Rightarrow> oauth2_Token \<Rightarrow> Token" where
  "tokenFromOAuth2 a provider t =
     \<lparr>t_authy = a, t_Version = 2, t_Provider = provider, t_Value = o2_AccessToken t,
      t_Scope = o2_Scope t, t_Type = o2_Type t, t_Expires = o2_Expires t,
      t_RefreshToken = o2_RefreshToken t\<rparr>"

definition Token_oauth2 :: "Token \<Rightarrow> oauth2_Token" where
  "Token_oauth2 t =
     \<lparr>o2_AccessToken = t_Value t, o2_Scope = t_Scope t, o2_Type = t_Type t,
      o2_Expires = t_Expires t, o2_RefreshToken = t_RefreshToken t\<rparr>"

text \<open>\<open>Expired\<close>, with \<open>now\<close> the instant \<open>time.Now()\<close> returns.\<close>

definition Expired :: "Token \<Rightarrow> Time \<Rightarrow> bool" where
  "Expired t now = (case t_Expires t of None \<Rightarrow> False | Some expires \<Rightarrow> expires < now)"

definition IsRefreshable :: "Token \<Rightarrow> bool" where
  "IsRefreshable t = (t_Version t = 2 \<and> t_RefreshToken t \<noteq> [])"

text \<open>
  \<open>Token.Refresh\<close> mutates the token it is called on: the model returns the error (or
  \<open>None\<close> for nil), the token after the call and the world after the call.
\<close>

definition Token_Refresh :: "stdlib \<Rightarrow> Token \<Rightarrow> world \<Rightarrow> error option \<times> Token \<times> world" where
  "Token_Refresh lib t w =
     (if \<not> IsRefreshable t then (Some (ErrorString ''Token cannot be refreshed''), t, w)
      else
        case a_providers (t_authy t) (t_Provider t) of
          None \<Rightarrow> (Some (ErrorString (''unknown provider '' @ t_Provider t)), t, w)
        | Some providerConfig \<Rightarrow>
            if t_Version t = 2
            then (case Refresh lib providerConfig (Token_oauth2 t) w of
                    (Inl err, w') \<Rightarrow> (Some err, t, w')
                  | (Inr newToken, w') \<Rightarrow>
                      (None,
                       t\<lparr>t_RefreshToken := o2_RefreshToken newToken,
                         t_Value := o2_AccessToken newToken,
                         t_Expires := o2_Expires newToken,
                         t_Type := o2_Type newToken\<rparr>,
                       w'))
            else (None, t, w))"

section \<open>Package authy: Authorize and Access\<close>

text \<open>
  \<open>Authorize\<close> writes to the session it is given: the model returns the session after
  the call beside the result.
\<close>

definition Authorize ::
  "stdlib \<Rightarrow> Authy \<Rightarrow> string \<Rightarrow> Session \<Rightarrow> Values Request \<Rightarrow> world
     \<Rightarrow> (error + string) \<times> Session" where
  "Authorize lib a providerName session r w =
     (case a_providers a providerName of
        None \<Rightarrow> (Inl (ErrorString (''unknown provider '' @ providerName)), session)
      | Some providerConfig \<Rightarrow>
          if p_OAuth (pc_Provider providerConfig) = 2
          then (case NewState w of
                  Inl err \<Rightarrow> (Inl err, session)
                | Inr state \<Rightarrow>
                    let session = Session_Set session (''authy.'' @ providerName @ ''.state'')
                                    (StringVal state);
                        session = Session_Set session (''authy.'' @ state @ ''.scope'')
                                    (StringVal (Join (pc_Scope providerConfig) '',''));
                        providerConfig = providerConfig\<lparr>pc_State := state\<rparr>
                    in (AuthorizeURL lib providerConfig r, session))
          else (Inl (ErrorString ''Not Implemented''), session))"

text \<open>
  \<open>Access\<close>.  The type assertions \<open>state.(string)\<close> (line 94) and
  \<open>session.Get(...).(string)\<close> (line 99) panic on a value that is not a string; nil is
  not a string.
\<close>

definition Access ::
  "stdlib \<Rightarrow> Authy \<Rightarrow> string \<Rightarrow> Session \<Rightarrow> Values Request \<Rightarrow> world
     \<Rightarrow> (error + Token \<times> string) exec \<times> Session \<times> world" where
  "Access lib a providerName session r w =
     (case a_providers a providerName of
        None \<Rightarrow> (Returns (Inl (ErrorString (''unknown provider '' @ providerName))), session, w)
      | Some providerConfig \<Rightarrow>
          if p_OAuth (pc_Provider providerConfig) = 2
          then
            (case Session_Get session (''authy.'' @ providerName @ ''.state'') of
               None \<Rightarrow>
                 (Returns (Inl (ErrorString ''state token is not set in session, possible CSRF'')),
                  session, w)
             | Some (OtherVal x) \<Rightarrow> (Panics, session, w)
             | Some (StringVal state) \<Rightarrow>
                 if Values_Get (r_Query r) ''state'' \<noteq> state
                 then (Returns (Inl (ErrorString ''invalid state param provided, possible CSRF'')),
                       session, w)
                 else
                   (case Session_Get session (''authy.'' @ state @ ''.scope'') of
                      None \<Rightarrow> (Panics, session, w)
                    | Some (OtherVal x) \<Rightarrow> (Panics, session, w)
                    | Some (StringVal scope) \<Rightarrow>
                        let originalScope = Split (explode lib) scope '','' in
                        if Values_Get (r_Query r) ''code'' = []
                        then (Returns (Inl (ErrorString ''code was not found in the query parameters'')),
                              session, w)
                        else
                          (case GetAccessToken lib providerConfig r w of
                             (Inl err, w') \<Rightarrow> (Returns (Inl err), session, w')
                           | (Inr token, w') \<Rightarrow>
                               let session = Session_Delete session
                                               (''authy.'' @ providerName @ ''.state'');
                                   session = Session_Delete session
                                               (''authy.'' @ state @ ''.scope'');
                                   redirectUrl = (if pc_Callback providerConfig \<noteq> []
                                                  then pc_Callback providerConfig
                                                  else c_Callback (a_config a));
                                   token = (if length (o2_Scope token) = 0
                                            then token\<lparr>o2_Scope := originalScope\<rparr>
                                            else token)
                               in (Returns (Inr (tokenFromOAuth2 a providerName token, redirectUrl)),
                                   session, w'))))
          else (Returns (Inl (ErrorString ''Not Implemented'')), session, w))"

section \<open>Package authy: the authenticated transport\<close>

text \<open>
  \<open>RoundTrip\<close> copies a request whose header is a map of slices, both reached through
  references, so the model has a store: header maps (a key to the address of its slice of
  values) and slices, by address, and the next free address.  A nil map is \<open>None\<close>; an
  address that holds no slice reads as the nil slice.
\<close>

type_synonym addr = nat

record store =
  st_maps :: "addr \<rightharpoonup> (string \<times> addr) list"
  st_slices :: "addr \<rightharpoonup> string list"
  st_next :: addr

definition new_map :: "store \<Rightarrow> addr \<times> store" where
  "new_map st =
     (st_next st, st\<lparr>st_maps := (st_maps st)(st_next st \<mapsto> []), st_next := Suc (st_next st)\<rparr>)"

definition new_slice :: "store \<Rightarrow> string list \<Rightarrow> addr \<times> store" where
  "new_slice st elems =
     (st_next st, st\<lparr>st_slices := (st_slices st)(st_next st \<mapsto> elems), st_next := Suc (st_next st)\<rparr>)"

definition slice_elems :: "store \<Rightarrow> addr \<Rightarrow> string list" where
  "slice_elems st a = (case st_slices st a of None \<Rightarrow> [] | Some elems \<Rightarrow> elems)"

definition map_entries :: "store \<Rightarrow> addr option \<Rightarrow> (string \<times> addr) list" where
  "map_entries st h =
     (case h of
        None \<Rightarrow> []
      | Some m \<Rightarrow> (case st_maps st m of None \<Rightarrow> [] | Some entries \<Rightarrow> entries))"

definition map_store :: "store \<Rightarrow> addr \<Rightarrow> string \<Rightarrow> addr \<Rightarrow> store" where
  "map_store st m key a =
     st\<lparr>st_maps := (st_maps st)(m \<mapsto> assign (map_entries st (Some m)) key a)\<rparr>"

text \<open>What \<open>h[name]\<close> reads for a header \<open>h\<close>: the values of the slice, if the key is there.\<close>

definition header_get :: "store \<Rightarrow> addr option \<Rightarrow> string \<Rightarrow> string list option" where
  "header_get st h name = map_option (slice_elems st) (map_of (map_entries st h) name)"

text \<open>
  Of a \<open>TokenTransport\<close> the model keeps the token.  The underlying \<open>transport\<close> is
  called last, on the new request: \<open>RoundTrip\<close> is modelled up to that call, and returns
  the request it hands over and the store at that moment.
\<close>

record TokenTransport =
  tt_token :: Token

text \<open>The loop that copies the header: \<open>newHeader\<close> is \<open>newReq.Header\<close>.\<close>

fun copy_header :: "store \<Rightarrow> addr \<Rightarrow> (string \<times> addr) list \<Rightarrow> store" where
  "copy_header st newHeader [] = st"
| "copy_header st newHeader ((name, val) # rest) =
     (let (valCopy, st) = new_slice st (slice_elems st val);
          st = map_store st newHeader name valCopy
      in copy_header st newHeader rest)"

definition RoundTrip ::
  "TokenTransport \<Rightarrow> Time \<Rightarrow> addr option Request \<Rightarrow> store
     \<Rightarrow> (addr option Request \<times> store) exec" where
  "RoundTrip tt now req st =
     (let newReq = req;
          (h, st) = new_map st;
          newReq = newReq\<lparr>r_Header := Some h\<rparr>;
          st = copy_header st h (map_entries st (r_Header req))
      in if \<not> Expired (tt_token tt) now
         then (let (bearer, st) = new_slice st [''Bearer '' @ t_Value (tt_token tt)]
               in Returns (newReq, map_store st h ''Authorization'' bearer))
         else Returns (newReq, st))"

section \<open>The earlier revision of package authy (src/unnamed/part_001)\<close>

text \<open>
  The file holds the package before the token moved to a file of its own.  Its
  \<open>Authorize\<close> is the one above, line for line; its \<open>Token\<close>, \<open>RoundTrip\<close> and \<open>Access\<close>
  differ and are modelled here.  In \<open>RoundTrip\<close> the assignment of line 73 goes to
  \<open>req.Header\<close>, and an assignment to an entry of a nil map panics.
\<close>

record Token_part_001 =
  t1_Provider :: string
  t1_Value :: string
  t1_Scope :: "string list"
  t1_Expires :: "Time option"

definition Expired_part_001 :: "Token_part_001 \<Rightarrow> Time \<Rightarrow> bool" where
  "Expired_part_001 t now = (case t1_Expires t of None \<Rightarrow> False | Some expires \<Rightarrow> expires < now)"

record TokenTransport_part_001 =
  tt1_token :: Token_part_001

definition RoundTrip_part_001 ::
  "TokenTransport_part_001 \<Rightarrow> Time \<Rightarrow> addr option Request \<Rightarrow> store
     \<Rightarrow> (addr option Request \<times> store) exec" where
  "RoundTrip_part_001 tt now req st =
     (let newReq = req;
          (h, st) = new_map st;
          newReq = newReq\<lparr>r_Header := Some h\<rparr>;
          st = copy_header st h (map_entries st (r_Header req))
      in if \<not> Expired_part_001 (tt1_token tt) now
         then (let (bearer, st) = new_slice st [''Bearer '' @ t1_Value (tt1_token tt)]
               in case r_Header req of
                    None \<Rightarrow> Panics
                  | Some m \<Rightarrow> Returns (newReq, map_store st m ''Authorization'' bearer))
         else Returns (newReq, st))"

definition Access_part_001 ::
  "stdlib \<Rightarrow> Authy \<Rightarrow> string \<Rightarrow> Session \<Rightarrow> Values Request \<Rightarrow> world
     \<Rightarrow> (error + Token_part_001 \<times> string) exec \<times> Session \<times> world" where
  "Access_part_001 lib a providerName session r w =
     (case a_providers a providerName of
        None \<Rightarrow> (Returns (Inl (ErrorString (''unknown provider '' @ providerName))), session, w)
      | Some providerConfig \<Rightarrow>
          if p_OAuth (pc_Provider providerConfig) = 2
          then
            (case Session_Get session (''authy.'' @ providerName @ ''.state'') of
               None \<Rightarrow>
                 (Returns (Inl (ErrorString ''state token is not set in session, possible CSRF'')),
                  session, w)
             | Some (OtherVal x) \<Rightarrow> (Panics, session, w)
             | Some (StringVal state) \<Rightarrow>
                 if Values_Get (r_Query r) ''state'' \<noteq> state
                 then (Returns (Inl (ErrorString ''invalid state param provided, possible CSRF'')),
                       session, w)
                 else
                   (case Session_Get session (''authy.'' @ state @ ''.scope'') of
                      None \<Rightarrow> (Panics, session, w)
                    | Some (OtherVal x) \<Rightarrow> (Panics, session, w)
                    | Some (StringVal scope) \<Rightarrow>
                        let originalScope = Split (explode lib) scope '','' in
                        if Values_Get (r_Query r) ''code'' = []
                        then (Returns (Inl (ErrorString ''code was not found in the query parameters'')),
                              session, w)
                        else
                          (case GetAccessToken lib providerConfig r w of
                             (Inl err, w') \<Rightarrow> (Returns (Inl err), session, w')
                           | (Inr token, w') \<Rightarrow>
                               let session = Session_Delete session
                                               (''authy.'' @ providerName @ ''.state'');
                                   session = Session_Delete session
                                               (''authy.'' @ state @ ''.scope'');
                                   redirectUrl = (if pc_Callback providerConfig \<noteq> []
                                                  then pc_Callback providerConfig
                                                  else c_Callback (a_config a));
                                   token = (if length (o2_Scope token) = 0
                                            then token\<lparr>o2_Scope := originalScope\<rparr>
                                            else token)
                               in (Returns (Inr (\<lparr>t1_Provider = [], t1_Value = o2_AccessToken token,
                                                  t1_Scope = o2_Scope token, t1_Expires = None\<rparr>,
                                                 redirectUrl)),
                                   session, w'))))
          else (Returns (Inl (ErrorString ''Not Implemented'')), session, w))"

section \<open>Example inputs\<close>

text \<open>
  Concrete inputs for the runs below: a provider \<open>github\<close> without subdomain and with the
  scope delimiter \<open>" "\<close>, two configurations of it (one asking for two scopes, one for
  none), an engine that knows both, and a library whose functions agree with Go's on the
  strings that occur here.
\<close>

definition github :: Provider where
  "github =
     \<lparr>p_Name = ''github'', p_OAuth = 2,
      p_AuthorizeURL = ''https://github.com/login/oauth/authorize'',
      p_AccessURL = ''https://github.com/login/oauth/access_token'',
      p_ScopeDelimiter = '' '', p_Subdomain = False, p_CustomParameters = []\<rparr>"

definition github_config :: ProviderConfig where
  "github_config =
     \<lparr>pc_Provider = github, pc_Key = ''k1'', pc_Secret = ''s1'', pc_Subdomain = [],
      pc_Scope = [''repo'', ''user:email''], pc_Callback = [], pc_CustomParameters = [],
      pc_State = []\<rparr>"

definition basic_config :: ProviderConfig where
  "basic_config = github_config\<lparr>pc_Scope := []\<rparr>"

definition engine :: Authy where
  "engine =
     \<lparr>a_config = \<lparr>c_Callback = ''/''\<rparr>,
      a_providers = [''github'' \<mapsto> github_config, ''basic'' \<mapsto> basic_config]\<rparr>"

definition token_body :: string where
  "token_body = ''access_token=abc&token_type=bearer&expires_in=3600''"

definition example_lib :: stdlib where
  "example_lib =
     \<lparr>url_Parse = (\<lambda>s. if s = ''https://github.com/login/oauth/authorize''
                       then Inr \<lparr>url_Scheme = ''https'', url_Opaque = [], url_User = None,
                                 url_Host = ''github.com'', url_Path = ''/login/oauth/authorize'',
                                 url_ForceQuery = False, url_RawQuery = [], url_Fragment = []\<rparr>
                       else Inl (LibraryError ''parse'')),
      url_ParseQuery = (\<lambda>body. if body = token_body
                             then Inr [(''access_token'', [''abc'']), (''token_type'', [''bearer'']),
                                       (''expires_in'', [''3600''])]
                             else Inl (LibraryError ''invalid URL escape'')),
      escape_host = (\<lambda>h. h),
      EscapedPath = url_Path,
      EscapedFragment = url_Fragment,
      explode = map (\<lambda>c. [c])\<rparr>"

definition example_world :: world where
  "example_world =
     \<lparr>w_now = 1000 * Second, w_rand = Inr ''0123456789abcdef'',
      w_respond = (\<lambda>url form. Inr token_body), w_sent = []\<rparr>"

definition login_request :: "Values Request" where
  "login_request =
     \<lparr>r_Host = ''example.com'', r_Path = ''/authy/github'', r_Query = [], r_TLS = False,
      r_Header = []\<rparr>"

definition callback_request :: "string \<Rightarrow> Values Request" where
  "callback_request state =
     \<lparr>r_Host = ''example.com'', r_Path = ''/authy/github/callback'',
      r_Query = [(''state'', [state]), (''code'', [''c0de''])], r_TLS = False, r_Header = []\<rparr>"

definition pending_session :: Session where
  "pending_session =
     [''authy.github.state'' \<mapsto> StringVal ''5ca1ab1e'',
      ''authy.5ca1ab1e.scope'' \<mapsto> StringVal ''repo,user:email'']"

definition example_token :: Token where
  "example_token =
     \<lparr>t_authy = engine, t_Version = 2, t_Provider = ''github'', t_Value = ''abc'',
      t_Scope = [''repo''], t_Type = ''bearer'', t_Expires = None, t_RefreshToken = ''r1''\<rparr>"

definition example_store :: store where
  "example_store =
     \<lparr>st_maps = [0 \<mapsto> [(''Accept'', 1)]], st_slices = [1 \<mapsto> [''application/json'']],
      st_next = 2\<rparr>"

definition api_request :: "addr option Request" where
  "api_request =
     \<lparr>r_Host = ''api.github.com'', r_Path = ''/user'', r_Query = [], r_TLS = True,
      r_Header = Some 0\<rparr>"

definition example_transport_part_001 :: TokenTransport_part_001 where
  "example_transport_part_001 =
     \<lparr>tt1_token = \<lparr>t1_Provider = [], t1_Value = ''abc'', t1_Scope = [''repo''], t1_Expires = None\<rparr>\<rparr>"

section \<open>Lemmas about the library fragments and the example inputs\<close>

lemma session_keys_differ:
  "''authy.'' @ p @ ''.state'' \<noteq> ''authy.'' @ s @ ''.scope''"
proof
  assume "''authy.'' @ p @ ''.state'' = ''authy.'' @ s @ ''.scope''"
  then have "p @ ''.state'' = s @ ''.scope''" by simp
  then have "''.state'' = ''.scope''"
    by simp
  then show False by simp
qed

lemma Split_empty_string: "sep \<noteq> [] \<Longrightarrow> Split e [] sep = [[]]"
  by (simp add: Split.simps)

lemma ParseInt_3600: "ParseInt ''3600'' 32 = (3600, None)"
  by (simp add: ParseInt_def ParseUint_def digit_def)

lemma ParseInt_soon: "ParseInt ''soon'' 32 = (0, Some ErrSyntax)"
  by (simp add: ParseInt_def ParseUint_def digit_def)

lemma genCallbackURL_nonempty: "genCallbackURL lib config r \<noteq> []"
  by (simp add: genCallbackURL_def URL_String_def Let_def)

lemma example_exchange:
  "GetAccessToken example_lib github_config (callback_request s) example_world =
     (Inr \<lparr>o2_AccessToken = ''abc'', o2_Scope = [], o2_Type = ''bearer'', o2_Expires = None,
           o2_RefreshToken = []\<rparr>,
      example_world\<lparr>w_sent :=
        [(''https://github.com/login/oauth/access_token'',
          [(''client_id'', [''k1'']), (''client_secret'', [''s1'']),
           (''grant_type'', [''authorization_code'']), (''code'', [''c0de'']),
           (''redirect_uri'', [''http://example.com/authy/github/callback/callback''])])]\<rparr>)"
proof -
  have cb: "genCallbackURL example_lib github_config (callback_request s)
              = ''http://example.com/authy/github/callback/callback''"
    by (simp add: genCallbackURL_def URL_String_def example_lib_def callback_request_def)
  have pq: "url_ParseQuery example_lib token_body =
              Inr [(''access_token'', [''abc'']), (''token_type'', [''bearer'']),
                                       (''expires_in'', [''3600''])]"
    by (simp add: example_lib_def)
  have pt: "parseTokenResponse example_lib now github_config
              [(''access_token'', [''abc'']), (''token_type'', [''bearer'']), (''expires_in'', [''3600''])]
            = Inr \<lparr>o2_AccessToken = ''abc'', o2_Scope = [], o2_Type = ''bearer'', o2_Expires = None,
           o2_RefreshToken = []\<rparr>" for now
    by (simp add: parseTokenResponse_def Values_Get_def ParseInt_3600)
  have q: "Values_Get (r_Query (callback_request s)) ''code'' = ''c0de''"
    by (simp add: callback_request_def Values_Get_def)
  have k: "pc_Key github_config = ''k1''" "pc_Secret github_config = ''s1''"
    "p_AccessURL (pc_Provider github_config) = ''https://github.com/login/oauth/access_token''"
    by (simp_all add: github_config_def github_def)
  have r: "w_respond example_world = (\<lambda>url form. Inr token_body)" "w_sent example_world = []"
    by (simp_all add: example_world_def)
  show ?thesis
    by (simp add: GetAccessToken_def cb q k PostForm_def r pq pt Values_Add_def)
qed

lemma example_access:
  "Access example_lib engine ''github'' pending_session (callback_request ''5ca1ab1e'') example_world =
     (Returns (Inr (tokenFromOAuth2 engine ''github''
                      \<lparr>o2_AccessToken = ''abc'', o2_Scope = [''repo'', ''user:email''],
                        o2_Type = ''bearer'', o2_Expires = None, o2_RefreshToken = []\<rparr>, ''/'')),
      (pending_session(''authy.github.state'' := None))(''authy.5ca1ab1e.scope'' := None),
      snd (GetAccessToken example_lib github_config (callback_request ''5ca1ab1e'') example_world))"
proof -
  have p: "a_providers engine ''github'' = Some github_config"
    "p_OAuth (pc_Provider github_config) = 2" "pc_Callback github_config = []"
    "c_Callback (a_config engine) = ''/''"
    by (simp_all add: engine_def github_config_def github_def)
  have s: "Session_Get pending_session ''authy.github.state'' = Some (StringVal ''5ca1ab1e'')"
    "Session_Get pending_session ''authy.5ca1ab1e.scope'' = Some (StringVal ''repo,user:email'')"
    by (simp_all add: Session_Get_def pending_session_def)
  have q: "Values_Get (r_Query (callback_request ''5ca1ab1e'')) ''state'' = ''5ca1ab1e''"
    "Values_Get (r_Query (callback_request ''5ca1ab1e'')) ''code'' = ''c0de''"
    by (simp_all add: callback_request_def Values_Get_def)
  have sp: "Split e ''repo,user:email'' '','' = [''repo'', ''user:email'']" for e
    by (simp add: Split.simps)
  show ?thesis
    by (simp add: Access_def p s q sp example_exchange Session_Delete_def)
qed

section \<open>C1: the token-response parser and \<open>expires_in\<close>\<close>

text \<open>
  What \<open>parseTokenResponse\<close> does with \<open>expires_in\<close> on a response that has an access
  token and a token type: the expiry is set exactly when \<open>strconv.ParseInt\<close> returns an
  error, to the current instant plus the value returned beside the error.
\<close>

lemma parseTokenResponse_Expires:
  assumes "parseTokenResponse lib now config values = Inr token"
  shows "o2_Expires token =
           (if Values_Get values ''expires_in'' \<noteq> []
               \<and> snd (ParseInt (Values_Get values ''expires_in'') 32) \<noteq> None
            then Some (now + fst (ParseInt (Values_Get values ''expires_in'') 32) * Second)
            else None)"
  using assms
  by (auto simp: parseTokenResponse_def Let_def split: if_splits prod.splits)

text \<open>
  C1.  The claim: a response whose \<open>expires_in\<close> parses as the integer \<open>n\<close> gives a token
  that expires at now + \<open>n\<close> seconds, and one whose \<open>expires_in\<close> does not parse leaves
  the expiry unset, without an error.  The code tests \<open>err != nil\<close> where the claim, and
  the comment above the test, need \<open>err == nil\<close>: with \<open>expires_in=3600\<close> the expiry
  stays unset, and with \<open>expires_in=soon\<close> it is set to the current instant.
\<close>

theorem C1_expires_in_inverted:
  "parseTokenResponse lib now config
     [(''access_token'', [''abc'']), (''token_type'', [''bearer'']), (''expires_in'', [''3600''])]
   = Inr \<lparr>o2_AccessToken = ''abc'', o2_Scope = [], o2_Type = ''bearer'', o2_Expires = None,
          o2_RefreshToken = []\<rparr>
   \<and> parseTokenResponse lib now config
     [(''access_token'', [''abc'']), (''token_type'', [''bearer'']), (''expires_in'', [''soon''])]
   = Inr \<lparr>o2_AccessToken = ''abc'', o2_Scope = [], o2_Type = ''bearer'', o2_Expires = Some now,
          o2_RefreshToken = []\<rparr>"
  by (simp add: parseTokenResponse_def Values_Get_def ParseInt_3600 ParseInt_soon)

section \<open>C2: the form posted by \<open>Refresh\<close>\<close>

text \<open>
  Whatever token it is given, \<open>oauth2.Refresh\<close> posts an empty \<open>refresh_token\<close>: line 235
  reads the field of the named result \<open>token\<close>, which is still zero, and the parameter
  \<open>originalToken\<close> is never read.
\<close>

lemma Refresh_posts:
  "w_sent (snd (Refresh lib config originalToken w)) =
     w_sent w @ [(p_AccessURL (pc_Provider config),
                  [(''grant_type'', [''refresh_token'']), (''refresh_token'', [[]])])]"
  by (simp add: Refresh_def PostForm_def Values_Add_def Let_def split: sum.splits prod.splits)

text \<open>
  C2.  The claim: the refresh request carries \<open>grant_type=refresh_token\<close> and the refresh
  token of the token being refreshed.  For the refreshable token \<open>example_token\<close>, whose
  refresh token is \<open>r1\<close>, \<open>Token.Refresh\<close> posts one form to the access-token URL of the
  provider, with \<open>grant_type=refresh_token\<close> and with an empty \<open>refresh_token\<close>.
\<close>

theorem C2_refresh_token_not_sent:
  "IsRefreshable example_token
   \<and> t_RefreshToken example_token = ''r1''
   \<and> w_sent (snd (snd (Token_Refresh lib example_token example_world))) =
       [(''https://github.com/login/oauth/access_token'',
         [(''grant_type'', [''refresh_token'']), (''refresh_token'', [''''])])]"
proof -
  have p: "a_providers (t_authy example_token) (t_Provider example_token) = Some github_config"
    and r: "IsRefreshable example_token" "t_Version example_token = 2"
      "t_RefreshToken example_token = ''r1''"
    by (simp_all add: example_token_def engine_def IsRefreshable_def)
  have u: "p_AccessURL (pc_Provider github_config) = ''https://github.com/login/oauth/access_token''"
    "w_sent example_world = []"
    by (simp_all add: github_config_def github_def example_world_def)
  have "w_sent (snd (snd (Token_Refresh lib example_token example_world))) =
          w_sent (snd (Refresh lib github_config (Token_oauth2 example_token) example_world))"
    by (simp add: Token_Refresh_def p r split: prod.splits sum.splits)
  then show ?thesis
    by (simp add: Refresh_posts u r)
qed

section \<open>C3: a callback with the wrong state\<close>

text \<open>
  A state is stored under the key of a provider by \<open>Authorize\<close>, which does so for a
  registered provider of version 2 and stores a string.
\<close>

lemma Authorize_stores_state:
  assumes "Authorize lib a P session r w = (Inr url, session')"
  shows "\<exists>providerConfig S.
           a_providers a P = Some providerConfig \<and> p_OAuth (pc_Provider providerConfig) = 2
           \<and> session' (''authy.'' @ P @ ''.state'') = Some (StringVal S)"
  using assms session_keys_differ [of P]
  by (auto simp: Authorize_def Session_Set_def Let_def split: option.splits if_splits sum.splits)

text \<open>
  C3.  For a version-2 provider \<open>P\<close> with the state \<open>S\<close> stored in the session under
  \<open>authy.P.state\<close>, \<open>Access\<close> on a request whose \<open>state\<close> parameter differs from \<open>S\<close>
  returns the CSRF-mismatch error, and the session it leaves is the session it was given:
  no entry is deleted, and nothing is posted.
\<close>

theorem C3_csrf_mismatch:
  assumes "a_providers a P = Some providerConfig"
    and "p_OAuth (pc_Provider providerConfig) = 2"
    and "session (''authy.'' @ P @ ''.state'') = Some (StringVal S)"
    and "Values_Get (r_Query r) ''state'' \<noteq> S"
  shows "Access lib a P session r w =
           (Returns (Inl (ErrorString ''invalid state param provided, possible CSRF'')), session, w)"
  using assms by (simp add: Access_def Session_Get_def)

theorem C3_csrf_mismatch_witness:
  "Access example_lib engine ''github'' pending_session (callback_request ''0ddba11'') example_world =
     (Returns (Inl (ErrorString ''invalid state param provided, possible CSRF'')),
      pending_session, example_world)"
  by (rule C3_csrf_mismatch [where providerConfig = github_config and S = "''5ca1ab1e''"])
     (simp_all add: engine_def github_config_def github_def pending_session_def
        callback_request_def Values_Get_def)

section \<open>C4: a successful \<open>Access\<close> consumes the state\<close>

text \<open>
  C4.  Whenever \<open>Access\<close> returns a token, the session it leaves is the session it was
  given without the state entry of the provider and without the scope entry of that
  state, whether the scope was backfilled or not; and \<open>Access\<close> on that session (with the
  same request, in any world) returns the error of the missing state.
\<close>

theorem C4_success_consumes_state:
  assumes "Access lib a P session r w = (Returns (Inr (token, redirectUrl)), session', w')"
  shows "(\<exists>S. session (''authy.'' @ P @ ''.state'') = Some (StringVal S)
              \<and> session' = (session(''authy.'' @ P @ ''.state'' := None))(''authy.'' @ S @ ''.scope'' := None)
              \<and> session' (''authy.'' @ S @ ''.scope'') = None)
         \<and> session' (''authy.'' @ P @ ''.state'') = None
         \<and> fst (Access lib a P session' r w2) =
             Returns (Inl (ErrorString ''state token is not set in session, possible CSRF''))"
  using assms
  by (auto simp: Access_def Session_Get_def Session_Delete_def Let_def
      split: option.splits if_splits iface.splits prod.splits sum.splits)

theorem C4_success_consumes_state_witness:
  "fst (Access example_lib engine ''github''
          (fst (snd (Access example_lib engine ''github'' pending_session
                       (callback_request ''5ca1ab1e'') example_world)))
          (callback_request ''5ca1ab1e'') example_world) =
     Returns (Inl (ErrorString ''state token is not set in session, possible CSRF''))"
  using C4_success_consumes_state [OF example_access, of example_world]
  by (simp add: example_access)

section \<open>C5: \<open>Refresh\<close> on a token that cannot be refreshed\<close>

text \<open>
  C5.  On a token that is not refreshable (its version is not 2, or its refresh token is
  empty) \<open>Token.Refresh\<close> returns the error \<open>Token cannot be refreshed\<close>; the token after
  the call is the token before it, and nothing is posted.
\<close>

theorem C5_refresh_not_supported:
  assumes "\<not> IsRefreshable t"
  shows "Token_Refresh lib t w = (Some (ErrorString ''Token cannot be refreshed''), t, w)"
  using assms by (simp add: Token_Refresh_def)

theorem C5_refresh_not_supported_witness:
  "Token_Refresh example_lib (example_token\<lparr>t_RefreshToken := []\<rparr>) example_world =
     (Some (ErrorString ''Token cannot be refreshed''), example_token\<lparr>t_RefreshToken := []\<rparr>,
      example_world)"
  by (rule C5_refresh_not_supported) (simp add: IsRefreshable_def)

section \<open>C6: the authenticated transport\<close>

text \<open>
  The loop that copies the header allocates only fresh slices, writes only to the new
  map, and leaves in it, under every key, the values the original had.
\<close>

lemma map_of_assign: "map_of (assign es k v) = (map_of es)(k \<mapsto> v)"
  by (induction es k v rule: assign.induct) auto

lemma set_assign: "set (assign es k v) \<subseteq> insert (k, v) (set es)"
  by (induction es k v rule: assign.induct) auto

lemma copy_header_next: "st_next st \<le> st_next (copy_header st h es)"
proof (induction es arbitrary: st)
  case Nil
  show ?case by simp
next
  case (Cons e es)
  obtain name val where e: "e = (name, val)" by (cases e)
  let ?st1 = "map_store (snd (new_slice st (slice_elems st val))) h name (st_next st)"
  have "st_next ?st1 = Suc (st_next st)"
    by (simp add: map_store_def new_slice_def)
  with Cons.IH [of ?st1] show ?case
    by (simp add: e new_slice_def)
qed

lemma copy_header_slices:
  "a < st_next st \<Longrightarrow> st_slices (copy_header st h es) a = st_slices st a"
proof (induction es arbitrary: st)
  case Nil
  show ?case by simp
next
  case (Cons e es)
  obtain name val where e: "e = (name, val)" by (cases e)
  let ?st1 = "map_store (snd (new_slice st (slice_elems st val))) h name (st_next st)"
  have "st_next ?st1 = Suc (st_next st)"
    by (simp add: map_store_def new_slice_def)
  with Cons.prems have "a < st_next ?st1" by simp
  from Cons.IH [OF this] Cons.prems show ?case
    by (simp add: e new_slice_def map_store_def)
qed

lemma copy_header_maps:
  "m \<noteq> h \<Longrightarrow> st_maps (copy_header st h es) m = st_maps st m"
proof (induction es arbitrary: st)
  case Nil
  show ?case by simp
next
  case (Cons e es)
  obtain name val where e: "e = (name, val)" by (cases e)
  let ?st1 = "map_store (snd (new_slice st (slice_elems st val))) h name (st_next st)"
  from Cons.IH [OF Cons.prems, of ?st1] Cons.prems show ?case
    by (simp add: e new_slice_def map_store_def)
qed

lemma copy_header_fresh:
  assumes "\<forall>(n, a) \<in> set (map_entries st (Some h)). N \<le> a" and "N \<le> st_next st"
  shows "\<forall>(n, a) \<in> set (map_entries (copy_header st h es) (Some h)). N \<le> a"
  using assms
proof (induction es arbitrary: st)
  case Nil
  then show ?case by simp
next
  case (Cons e es)
  obtain name val where e: "e = (name, val)" by (cases e)
  let ?st1 = "map_store (snd (new_slice st (slice_elems st val))) h name (st_next st)"
  have n1: "N \<le> st_next ?st1" using Cons.prems(2)
    by (simp add: map_store_def new_slice_def)
  have "map_entries ?st1 (Some h) = assign (map_entries st (Some h)) name (st_next st)"
    by (simp add: map_store_def new_slice_def map_entries_def)
  then have "\<forall>(n, a) \<in> set (map_entries ?st1 (Some h)). N \<le> a"
    using Cons.prems set_assign [of "map_entries st (Some h)" name "st_next st"] by auto
  from Cons.IH [OF this n1] show ?case
    by (simp add: e new_slice_def)
qed

lemma copy_header_get:
  assumes "\<forall>(n, a) \<in> set es. a < st_next st"
    and "\<forall>(n, a) \<in> set (map_entries st (Some h)). a < st_next st"
  shows "header_get (copy_header st h es) (Some h) name =
           (case map_of (rev es) name of
              Some a \<Rightarrow> Some (slice_elems st a)
            | None \<Rightarrow> header_get st (Some h) name)"
  using assms
proof (induction es arbitrary: st)
  case Nil
  then show ?case by simp
next
  case (Cons e es)
  obtain k val where e: "e = (k, val)" by (cases e)
  let ?st1 = "map_store (snd (new_slice st (slice_elems st val))) h k (st_next st)"
  have n1: "st_next ?st1 = Suc (st_next st)"
    by (simp add: map_store_def new_slice_def)
  have ent: "map_entries ?st1 (Some h) = assign (map_entries st (Some h)) k (st_next st)"
    by (simp add: map_store_def new_slice_def map_entries_def)
  have sl: "slice_elems ?st1 a = (if a = st_next st then slice_elems st val else slice_elems st a)" for a
    by (simp add: map_store_def new_slice_def slice_elems_def)
  have p1: "\<forall>(n, a) \<in> set es. a < st_next ?st1"
    using Cons.prems(1) n1 by auto
  have p2: "\<forall>(n, a) \<in> set (map_entries ?st1 (Some h)). a < st_next ?st1"
    unfolding ent n1
    using Cons.prems(2) set_assign [of "map_entries st (Some h)" k "st_next st"]
    by (fastforce simp: less_Suc_eq)
  have old: "header_get ?st1 (Some h) name =
               (if name = k then Some (slice_elems st val) else header_get st (Some h) name)"
  proof (cases "name = k")
    case True
    then show ?thesis by (simp add: header_get_def ent map_of_assign sl)
  next
    case False
    show ?thesis
    proof (cases "map_of (map_entries st (Some h)) name")
      case None
      with False show ?thesis by (simp add: header_get_def ent map_of_assign)
    next
      case (Some a)
      then have "(name, a) \<in> set (map_entries st (Some h))" by (rule map_of_SomeD)
      with Cons.prems(2) have "a < st_next st" by auto
      with False Some show ?thesis by (simp add: header_get_def ent map_of_assign sl)
    qed
  qed
  have rest: "map_of (rev es) name = Some a \<Longrightarrow> slice_elems ?st1 a = slice_elems st a" for a
  proof -
    assume "map_of (rev es) name = Some a"
    then have "(name, a) \<in> set (rev es)" by (rule map_of_SomeD)
    with Cons.prems(1) have "a < st_next st" by (auto simp: e)
    then show ?thesis by (simp add: sl)
  qed
  have "header_get (copy_header st h (e # es)) (Some h) name =
          header_get (copy_header ?st1 h es) (Some h) name"
    by (simp add: e new_slice_def)
  also have "\<dots> = (case map_of (rev es) name of
              Some a \<Rightarrow> Some (slice_elems ?st1 a)
            | None \<Rightarrow> header_get ?st1 (Some h) name)"
    by (rule Cons.IH [OF p1 p2])
  also have "\<dots> = (case map_of (rev (e # es)) name of
              Some a \<Rightarrow> Some (slice_elems st a)
            | None \<Rightarrow> header_get st (Some h) name)"
    using rest by (auto simp: e old map_add_def split: option.splits)
  finally show ?case .
qed

lemma map_of_rev_distinct: "distinct (map fst es) \<Longrightarrow> map_of (rev es) = map_of es"
proof (induction es)
  case Nil
  show ?case by simp
next
  case (Cons e es)
  then have "fst e \<notin> dom (map_of es)" by (simp add: dom_map_of_conv_image_fst)
  with Cons show ?case
    by (cases e) (auto simp: map_add_def fun_eq_iff split: option.splits)
qed


lemma copy_header_bounded:
  assumes "\<forall>(n, a) \<in> set (map_entries st (Some h)). a < st_next st"
  shows "\<forall>(n, a) \<in> set (map_entries (copy_header st h es) (Some h)).
           a < st_next (copy_header st h es)"
  using assms
proof (induction es arbitrary: st)
  case Nil
  then show ?case by simp
next
  case (Cons e es)
  obtain k val where e: "e = (k, val)" by (cases e)
  let ?st1 = "map_store (snd (new_slice st (slice_elems st val))) h k (st_next st)"
  have n1: "st_next ?st1 = Suc (st_next st)"
    by (simp add: map_store_def new_slice_def)
  have ent: "map_entries ?st1 (Some h) = assign (map_entries st (Some h)) k (st_next st)"
    by (simp add: map_store_def new_slice_def map_entries_def)
  have "\<forall>(n, a) \<in> set (map_entries ?st1 (Some h)). a < st_next ?st1"
    unfolding ent n1
    using Cons.prems set_assign [of "map_entries st (Some h)" k "st_next st"]
    by (fastforce simp: less_Suc_eq)
  from Cons.IH [OF this] show ?case
    by (simp add: e new_slice_def)
qed

lemma RoundTrip_sets_header_on_clone:
  assumes live: "\<not> Expired (tt_token tt) now"
    and hdr: "case r_Header req of None \<Rightarrow> True | Some m \<Rightarrow> m < st_next st"
    and vals: "\<forall>(n, a) \<in> set (map_entries st (r_Header req)). a < st_next st"
    and keys: "distinct (map fst (map_entries st (r_Header req)))"
  shows "\<exists>st'. RoundTrip tt now req st = Returns (req\<lparr>r_Header := Some (st_next st)\<rparr>, st')
           \<and> header_get st' (Some (st_next st)) ''Authorization''
               = Some [''Bearer '' @ t_Value (tt_token tt)]
           \<and> (\<forall>name. name \<noteq> ''Authorization'' \<longrightarrow>
                 header_get st' (Some (st_next st)) name = header_get st (r_Header req) name)
           \<and> (\<forall>(n, a) \<in> set (map_entries st' (Some (st_next st))). st_next st < a)
           \<and> (\<forall>a < st_next st. st_maps st' a = st_maps st a \<and> st_slices st' a = st_slices st a)"
proof -
  let ?n = "st_next st"
  let ?st0 = "snd (new_map st)"
  let ?es = "map_entries st (r_Header req)"
  let ?st2 = "copy_header ?st0 ?n ?es"
  let ?b = "st_next ?st2"
  define bearer where "bearer = [''Bearer '' @ t_Value (tt_token tt)]"
  let ?st3 = "snd (new_slice ?st2 bearer)"
  let ?st' = "map_store ?st3 ?n ''Authorization'' ?b"
  have n0: "st_next ?st0 = Suc ?n" and sl0: "st_slices ?st0 = st_slices st"
    and ent0: "map_entries ?st0 (Some ?n) = []"
    and maps0: "\<And>a. a \<noteq> ?n \<Longrightarrow> st_maps ?st0 a = st_maps st a"
    by (simp_all add: new_map_def map_entries_def)
  have es0: "map_entries ?st0 (r_Header req) = ?es"
    using hdr by (cases "r_Header req") (simp_all add: map_entries_def new_map_def)
  have run: "RoundTrip tt now req st = Returns (req\<lparr>r_Header := Some ?n\<rparr>, ?st')"
    using live
    by (simp add: RoundTrip_def new_map_def new_slice_def Let_def bearer_def
        es0 [unfolded new_map_def, simplified])
  have b: "Suc ?n \<le> ?b"
    using copy_header_next [of ?st0 ?n ?es] n0 by simp
  have ent2_fresh: "\<forall>(n, a) \<in> set (map_entries ?st2 (Some ?n)). Suc ?n \<le> a"
    by (rule copy_header_fresh) (simp_all add: ent0 n0)
  have ent2_bound: "\<forall>(n, a) \<in> set (map_entries ?st2 (Some ?n)). a < ?b"
    by (rule copy_header_bounded) (simp add: ent0)
  have ent': "map_entries ?st' (Some ?n) = assign (map_entries ?st2 (Some ?n)) ''Authorization'' ?b"
    by (simp add: map_store_def new_slice_def map_entries_def)
  have sl': "slice_elems ?st' a = (if a = ?b then bearer else slice_elems ?st2 a)" for a
    by (simp add: map_store_def new_slice_def slice_elems_def)
  have auth: "header_get ?st' (Some ?n) ''Authorization'' = Some bearer"
    by (simp add: header_get_def ent' map_of_assign sl')
  have vals0: "\<forall>(n, a) \<in> set ?es. a < st_next ?st0"
    using vals n0 by auto
  have get2: "header_get ?st2 (Some ?n) name = header_get st (r_Header req) name" for name
  proof -
    have "header_get ?st2 (Some ?n) name =
            (case map_of (rev ?es) name of
               Some a \<Rightarrow> Some (slice_elems ?st0 a)
             | None \<Rightarrow> header_get ?st0 (Some ?n) name)"
      by (rule copy_header_get) (simp_all add: vals0 ent0)
    also have "\<dots> = header_get st (r_Header req) name"
      by (simp add: map_of_rev_distinct [OF keys] header_get_def ent0 slice_elems_def sl0
          split: option.splits)
    finally show ?thesis .
  qed
  have others: "header_get ?st' (Some ?n) name = header_get st (r_Header req) name"
    if "name \<noteq> ''Authorization''" for name
  proof (cases "map_of (map_entries ?st2 (Some ?n)) name")
    case None
    with that get2 [of name] show ?thesis
      by (simp add: header_get_def ent' map_of_assign)
  next
    case (Some a)
    then have "(name, a) \<in> set (map_entries ?st2 (Some ?n))" by (rule map_of_SomeD)
    with ent2_bound have "a \<noteq> ?b" by auto
    with that Some get2 [of name] show ?thesis
      by (simp add: header_get_def ent' map_of_assign sl')
  qed
  have fresh: "\<forall>(n, a) \<in> set (map_entries ?st' (Some ?n)). ?n < a"
    unfolding ent'
    using ent2_fresh b set_assign [of "map_entries ?st2 (Some ?n)" "''Authorization''" ?b]
    by fastforce
  have frame: "st_maps ?st' a = st_maps st a \<and> st_slices ?st' a = st_slices st a"
    if "a < ?n" for a
  proof -
    from that have ne: "a \<noteq> ?n" and lt: "a < st_next ?st0" and neb: "a \<noteq> ?b"
      using n0 b by simp_all
    have "st_maps ?st' a = st_maps ?st2 a"
      using ne by (simp add: map_store_def new_slice_def)
    also have "\<dots> = st_maps st a"
      using copy_header_maps [OF ne, of ?st0 ?es] maps0 [OF ne] by simp
    finally have m: "st_maps ?st' a = st_maps st a" .
    have "st_slices ?st' a = st_slices ?st2 a"
      using neb by (simp add: map_store_def new_slice_def)
    also have "\<dots> = st_slices st a"
      using copy_header_slices [OF lt, of ?n ?es] sl0 by simp
    finally show ?thesis using m by simp
  qed
  from run auth others fresh frame show ?thesis
    unfolding bearer_def by blast
qed

text \<open>
  C6.  The claim: for a token that is not expired, \<open>RoundTrip\<close> sets \<open>Authorization\<close> to
  \<open>Bearer\<close> and the value of the token on a clone with deep-copied headers, and leaves the
  request of the caller as it was.  \<open>RoundTrip\<close> of token.go does so (the lemma above).
  \<open>RoundTrip\<close> of the earlier revision assigns to \<open>req.Header\<close>: on \<open>api_request\<close>, whose
  header has no \<open>Authorization\<close>, the header of the caller's request has it after the call
  and the header of the clone has not.
\<close>

theorem C6_part_001_writes_original:
  "\<not> Expired_part_001 (tt1_token example_transport_part_001) now
   \<and> header_get example_store (r_Header api_request) ''Authorization'' = None
   \<and> (case RoundTrip_part_001 example_transport_part_001 now api_request example_store of
         Panics \<Rightarrow> False
       | Returns (newReq, st') \<Rightarrow>
           header_get st' (r_Header api_request) ''Authorization'' = Some [''Bearer abc'']
           \<and> header_get st' (r_Header newReq) ''Authorization'' = None
           \<and> header_get st' (r_Header newReq) ''Accept'' = Some [''application/json''])"
  by (simp add: RoundTrip_part_001_def Expired_part_001_def example_transport_part_001_def
      api_request_def example_store_def new_map_def new_slice_def map_entries_def map_store_def
      slice_elems_def header_get_def)

section \<open>C7: \<open>Expired\<close>\<close>

text \<open>
  C7, as amended.  \<open>Expired\<close> is true exactly when the expiry is set and lies strictly
  before the current instant; a token without expiry is not expired; and a token whose
  expiry is the current instant is not expired.
\<close>

theorem C7_expired:
  "Expired t now = (\<exists>expires. t_Expires t = Some expires \<and> expires < now)
   \<and> Expired (t\<lparr>t_Expires := None\<rparr>) now = False
   \<and> Expired (t\<lparr>t_Expires := Some now\<rparr>) now = False"
  by (simp add: Expired_def split: option.splits)

text \<open>
  C7 as stated treats a token whose expiry equals the current instant as expired.
  \<open>time.Now().After\<close> is strict: at the instant of its expiry the token is not expired.
\<close>

theorem C7_expired_boundary_counterexample:
  "\<not> Expired (example_token\<lparr>t_Expires := Some (1000 * Second)\<rparr>) (1000 * Second)"
  by (simp add: Expired_def)

section \<open>C8: the query of the authorization URL\<close>

lemma AuthorizeURL_values_k1:
  assumes "pc_Key config = ''k1''"
    and "pc_Scope config = [''repo'', ''user:email'']"
    and "p_ScopeDelimiter (pc_Provider config) = '' ''"
    and "pc_State config = []"
    and "pc_CustomParameters config = []"
  shows "AuthorizeURL_values lib config r =
           [(''client_id'', [''k1'']), (''response_type'', [''code'']),
            (''redirect_uri'', [genCallbackURL lib config r]),
            (''scope'', [''repo user:email''])]"
  using assms genCallbackURL_nonempty [of lib config r]
  by (simp add: AuthorizeURL_values_def Values_Add_def)

lemma Values_Encode_k1:
  "Values_Encode
     [(''client_id'', [''k1'']), (''response_type'', [''code'']), (''redirect_uri'', [u]),
      (''scope'', [''repo user:email''])]
   = ''client_id=k1&redirect_uri='' @ QueryEscape u @ ''&response_type=code&scope=repo+user%3Aemail''"
proof -
  have keys: "sort_Strings [''client_id'', ''response_type'', ''redirect_uri'', ''scope'']
                = [''client_id'', ''redirect_uri'', ''response_type'', ''scope'']"
    by (simp add: sort_Strings_def)
  have esc: "QueryEscape ''client_id'' = ''client_id''" "QueryEscape ''k1'' = ''k1''"
    "QueryEscape ''redirect_uri'' = ''redirect_uri''"
    "QueryEscape ''response_type'' = ''response_type''" "QueryEscape ''code'' = ''code''"
    "QueryEscape ''scope'' = ''scope''"
    "QueryEscape ''repo user:email'' = ''repo+user%3Aemail''"
    by (simp_all add: QueryEscape_def shouldEscape_def upperhex_def)
  show ?thesis
    by (simp add: Values_Encode_def keys esc)
qed

text \<open>
  C8, as amended.  For a provider that needs no subdomain, the key \<open>k1\<close>, the scopes
  \<open>repo\<close> and \<open>user:email\<close>, the delimiter \<open>" "\<close>, an empty state and no custom parameters,
  the URL built is the parsed base URL with the query
  \<open>client_id=k1&redirect_uri=\<close>\<dots>\<open>&response_type=code&scope=repo+user%3Aemail\<close>, where \<dots>
  is the escaped callback URL: the keys are sorted, so \<open>redirect_uri\<close> stands between
  \<open>client_id\<close> and \<open>response_type\<close>, and the space of the scope is written \<open>+\<close>.  The
  keys of the query are \<open>client_id\<close>, \<open>response_type\<close>, \<open>redirect_uri\<close> and \<open>scope\<close>:
  there is no \<open>state\<close>.
\<close>

theorem C8_authorize_query:
  assumes "\<not> p_Subdomain (pc_Provider config)"
    and "pc_Key config = ''k1''"
    and "pc_Scope config = [''repo'', ''user:email'']"
    and "p_ScopeDelimiter (pc_Provider config) = '' ''"
    and "pc_State config = []"
    and "pc_CustomParameters config = []"
    and "url_Parse lib (p_AuthorizeURL (pc_Provider config)) = Inr authUrl"
  shows "AuthorizeURL lib config r =
           Inr (URL_String lib
                  (authUrl\<lparr>url_RawQuery :=
                     ''client_id=k1&redirect_uri='' @ QueryEscape (genCallbackURL lib config r)
                       @ ''&response_type=code&scope=repo+user%3Aemail''\<rparr>))
         \<and> map fst (AuthorizeURL_values lib config r)
             = [''client_id'', ''response_type'', ''redirect_uri'', ''scope'']"
  using assms(1,7)
  by (simp add: AuthorizeURL_def AuthorizeURL_values_k1 [OF assms(2-6)] Values_Encode_k1)

theorem C8_authorize_query_witness:
  "AuthorizeURL example_lib github_config login_request =
     Inr (URL_String example_lib
            (\<lparr>url_Scheme = ''https'', url_Opaque = [], url_User = None,
              url_Host = ''github.com'', url_Path = ''/login/oauth/authorize'',
              url_ForceQuery = False, url_RawQuery = [], url_Fragment = []\<rparr>
             \<lparr>url_RawQuery :=
                ''client_id=k1&redirect_uri=''
                  @ QueryEscape (genCallbackURL example_lib github_config login_request)
                  @ ''&response_type=code&scope=repo+user%3Aemail''\<rparr>))
   \<and> map fst (AuthorizeURL_values example_lib github_config login_request)
       = [''client_id'', ''response_type'', ''redirect_uri'', ''scope'']"
  by (rule C8_authorize_query)
     (simp_all add: github_config_def github_def example_lib_def)

lemma example_authorize_url:
  "AuthorizeURL example_lib github_config login_request =
     Inr ''https://github.com/login/oauth/authorize?client_id=k1&redirect_uri=http%3A%2F%2Fexample.com%2Fauthy%2Fgithub%2Fcallback&response_type=code&scope=repo+user%3Aemail''"
proof -
  have cb: "genCallbackURL example_lib github_config login_request
              = ''http://example.com/authy/github/callback''"
    by (simp add: genCallbackURL_def URL_String_def example_lib_def login_request_def)
  have qe: "QueryEscape ''http://example.com/authy/github/callback''
              = ''http%3A%2F%2Fexample.com%2Fauthy%2Fgithub%2Fcallback''"
    by (simp add: QueryEscape_def shouldEscape_def upperhex_def)
  have cfg: "p_Subdomain (pc_Provider github_config) = False"
    "p_AuthorizeURL (pc_Provider github_config) = ''https://github.com/login/oauth/authorize''"
    "pc_Key github_config = ''k1''" "pc_Scope github_config = [''repo'', ''user:email'']"
    "p_ScopeDelimiter (pc_Provider github_config) = '' ''" "pc_State github_config = []"
    "pc_CustomParameters github_config = []"
    by (simp_all add: github_config_def github_def)
  have parse: "url_Parse example_lib ''https://github.com/login/oauth/authorize'' =
      Inr \<lparr>url_Scheme = ''https'', url_Opaque = [], url_User = None,
            url_Host = ''github.com'', url_Path = ''/login/oauth/authorize'',
            url_ForceQuery = False, url_RawQuery = [], url_Fragment = []\<rparr>"
    and esc: "escape_host example_lib = (\<lambda>h. h)" "EscapedPath example_lib = url_Path"
    by (simp_all add: example_lib_def)
  show ?thesis
    by (simp add: AuthorizeURL_def cfg parse AuthorizeURL_values_k1 [OF cfg(3-7)] Values_Encode_k1 cb qe
        URL_String_def esc)
qed

text \<open>
  C8 as stated asks for \<open>client_id=k1&response_type=code&scope=repo%20user%3Aemail\<close> in
  the query.  The URL built for \<open>github_config\<close> on \<open>login_request\<close> does not contain it.
\<close>

theorem C8_authorize_query_counterexample:
  "AuthorizeURL example_lib github_config login_request =
     Inr ''https://github.com/login/oauth/authorize?client_id=k1&redirect_uri=http%3A%2F%2Fexample.com%2Fauthy%2Fgithub%2Fcallback&response_type=code&scope=repo+user%3Aemail''
   \<and> \<not> Contains ''https://github.com/login/oauth/authorize?client_id=k1&redirect_uri=http%3A%2F%2Fexample.com%2Fauthy%2Fgithub%2Fcallback&response_type=code&scope=repo+user%3Aemail''
           ''client_id=k1&response_type=code&scope=repo%20user%3Aemail''"
  by (simp add: example_authorize_url Contains_def)

section \<open>C9: \<open>Access\<close> panics on a missing scope entry\<close>

text \<open>
  C9.  When the state entry of a version-2 provider is a string equal to the \<open>state\<close>
  parameter of the request, and the scope entry of that state is absent or is not a
  string, \<open>Access\<close> panics (in both revisions) and returns no error; the session is as
  it was.
\<close>

theorem C9_access_panics:
  assumes "a_providers a P = Some providerConfig"
    and "p_OAuth (pc_Provider providerConfig) = 2"
    and "session (''authy.'' @ P @ ''.state'') = Some (StringVal S)"
    and "Values_Get (r_Query r) ''state'' = S"
    and "session (''authy.'' @ S @ ''.scope'') = None
         \<or> session (''authy.'' @ S @ ''.scope'') = Some (OtherVal x)"
  shows "Access lib a P session r w = (Panics, session, w)
         \<and> Access_part_001 lib a P session r w = (Panics, session, w)"
  using assms by (auto simp add: Access_def Access_part_001_def Session_Get_def)

theorem C9_access_panics_witness:
  "Access example_lib engine ''github'' [''authy.github.state'' \<mapsto> StringVal ''5ca1ab1e'']
     (callback_request ''5ca1ab1e'') example_world
     = (Panics, [''authy.github.state'' \<mapsto> StringVal ''5ca1ab1e''], example_world)
   \<and> Access_part_001 example_lib engine ''github'' [''authy.github.state'' \<mapsto> StringVal ''5ca1ab1e'']
     (callback_request ''5ca1ab1e'') example_world
     = (Panics, [''authy.github.state'' \<mapsto> StringVal ''5ca1ab1e''], example_world)"
  by (rule C9_access_panics [where providerConfig = github_config and S = "''5ca1ab1e''"])
     (simp_all add: engine_def github_config_def github_def callback_request_def Values_Get_def)

section \<open>C10: the scope backfilled from an empty request\<close>

lemma Authorize_session:
  assumes "a_providers a P = Some pc" and "p_OAuth (pc_Provider pc) = 2"
    and "w_rand w0 = Inr raw"
  shows "snd (Authorize lib a P session0 r0 w0) =
           (session0(''authy.'' @ P @ ''.state'' \<mapsto> StringVal (hex_EncodeToString raw)))
             (''authy.'' @ hex_EncodeToString raw @ ''.scope'' \<mapsto> StringVal (Join (pc_Scope pc) '',''))"
  using assms by (simp add: Authorize_def NewState_def Session_Set_def Let_def)

text \<open>
  C10.  \<open>Authorize\<close> for a provider configured with no scope stores the empty string
  (the scopes joined by a comma) under the scope key of the new state.  When the callback
  carries that state and a code, and the response of the provider has an access token
  and a token type and no scope, \<open>Access\<close> returns a token whose scope is the list of one
  empty string.
\<close>

theorem C10_empty_scope_backfill:
  assumes prov: "a_providers a P = Some pc" "p_OAuth (pc_Provider pc) = 2"
    and empty: "pc_Scope pc = []"
    and rand: "w_rand wa = Inr raw"
    and auth: "Authorize lib a P initial login wa = (res, stored)"
    and callback: "Values_Get (r_Query r) ''state'' = hex_EncodeToString raw"
      "Values_Get (r_Query r) ''code'' \<noteq> []"
    and resp: "w_respond w = (\<lambda>url form. Inr body)" "url_ParseQuery lib body = Inr parsed"
      "map_of parsed ''error'' = None" "Values_Get parsed ''access_token'' \<noteq> []"
      "Values_Get parsed ''token_type'' \<noteq> []" "Values_Get parsed ''scope'' = []"
  shows "stored (''authy.'' @ hex_EncodeToString raw @ ''.scope'') = Some (StringVal [])
         \<and> (\<exists>token redirectUrl final w'.
               Access lib a P stored r w = (Returns (Inr (token, redirectUrl)), final, w')
               \<and> t_Scope token = [[]])"
proof -
  let ?state = "hex_EncodeToString raw"
  have s1: "stored =
           (initial(''authy.'' @ P @ ''.state'' \<mapsto> StringVal ?state))
             (''authy.'' @ ?state @ ''.scope'' \<mapsto> StringVal [])"
    using Authorize_session [OF prov rand, of lib initial login] auth empty by simp
  have st: "Session_Get stored (''authy.'' @ P @ ''.state'') = Some (StringVal ?state)"
    using session_keys_differ [of P ?state] by (simp add: s1 Session_Get_def)
  have sc: "Session_Get stored (''authy.'' @ ?state @ ''.scope'') = Some (StringVal [])"
    by (simp add: s1 Session_Get_def)
  obtain token w' where gat: "GetAccessToken lib pc r w = (Inr token, w')"
    and scope: "o2_Scope token = []"
    using resp
    by (auto simp: GetAccessToken_def PostForm_def parseTokenResponse_def Let_def
        split: prod.splits)
  have "\<exists>token redirectUrl final w'.
               Access lib a P stored r w = (Returns (Inr (token, redirectUrl)), final, w')
               \<and> t_Scope token = [[]]"
    using prov callback st sc gat scope
    by (simp add: Access_def Split_empty_string tokenFromOAuth2_def)
  with sc show ?thesis by (simp add: Session_Get_def)
qed

theorem C10_empty_scope_backfill_witness:
  "snd (Authorize example_lib engine ''basic'' Map.empty login_request example_world)
     (''authy.'' @ hex_EncodeToString ''0123456789abcdef'' @ ''.scope'') = Some (StringVal [])
   \<and> (\<exists>token redirectUrl final w'.
         Access example_lib engine ''basic''
           (snd (Authorize example_lib engine ''basic'' Map.empty login_request example_world))
           (callback_request (hex_EncodeToString ''0123456789abcdef'')) example_world
           = (Returns (Inr (token, redirectUrl)), final, w')
         \<and> t_Scope token = [[]])"
proof (rule C10_empty_scope_backfill [where pc = basic_config and wa = example_world
      and body = token_body and initial = Map.empty and login = login_request
      and res = "fst (Authorize example_lib engine ''basic'' Map.empty login_request example_world)"
      and parsed = "[(''access_token'', [''abc'']), (''token_type'', [''bearer'']),
                     (''expires_in'', [''3600''])]"])
qed (simp_all add: engine_def basic_config_def github_config_def github_def example_world_def
      example_lib_def callback_request_def Values_Get_def)

end
